theory Spec2Isabelle
  imports Complex_Main "HOL-Library.Multiset"
begin

section \<open>Tables\<close>

text \<open>
  A pandas DataFrame is a rectangular block of cells with one label per row (the index)
  and one label per column. The cells are kept row by row, as \<open>df.values\<close> shows them;
  a missing cell (NaN, None, NaT) is \<open>None\<close>.
\<close>

record ('r, 'c, 'a) dataframe =
  index :: "'r list"
  columns :: "'c list"
  cells :: "'a option list list"

text \<open>Every DataFrame is rectangular: one row of cells per index label, one cell per column.\<close>

definition wf_df :: "('r, 'c, 'a) dataframe \<Rightarrow> bool" where
  "wf_df df \<longleftrightarrow>
     length (cells df) = length (index df) \<and>
     list_all (\<lambda>row. length row = length (columns df)) (cells df)"

datatype error = ValueError string | IndexError

datatype warning = DeprecationWarning string

section \<open>The pandas and NumPy operations the module calls\<close>

text \<open>
  pandas and NumPy are libraries the module imports; the definitions of this section
  follow their documented behaviour on the calls that \<open>utils.py\<close> makes.
\<close>

text \<open>\<open>len(df)\<close>: the number of rows.\<close>

definition len_df :: "('r, 'c, 'a) dataframe \<Rightarrow> nat" where
  "len_df df = length (index df)"

text \<open>The number of cells of a row or of a column that are not missing.\<close>

definition notna :: "'a option list \<Rightarrow> int" where
  "notna xs = int (length (filter (\<lambda>x. \<not> Option.is_none x) xs))"

definition column_cells :: "('r, 'c, 'a) dataframe \<Rightarrow> nat \<Rightarrow> 'a option list" where
  "column_cells df j = map (\<lambda>row. row ! j) (cells df)"

text \<open>
  \<open>df.count(axis="columns").values\<close>: pandas counts along the columns axis, which
  gives one count per row, in row order.
\<close>

definition count_columns :: "('r, 'c, 'a) dataframe \<Rightarrow> int list" where
  "count_columns df = map notna (cells df)"

text \<open>
  \<open>df.count(axis="index").values\<close>: pandas counts along the index axis, which gives
  one count per column, in column order.
\<close>

definition count_index :: "('r, 'c, 'a) dataframe \<Rightarrow> int list" where
  "count_index df = map (\<lambda>j. notna (column_cells df j)) [0..<length (columns df)]"

text \<open>
  Positional selection. \<open>take_rows ps df\<close> is the table whose i-th row is row \<open>ps ! i\<close>
  of \<open>df\<close>; \<open>df.iloc[ps, :]\<close> is that table when every position is in range and an
  IndexError otherwise. \<open>df.iloc[:, ps]\<close> does the same with the columns.
\<close>

definition take_rows :: "nat list \<Rightarrow> ('r, 'c, 'a) dataframe \<Rightarrow> ('r, 'c, 'a) dataframe" where
  "take_rows ps df =
     df\<lparr>index := map (\<lambda>i. index df ! i) ps, cells := map (\<lambda>i. cells df ! i) ps\<rparr>"

definition take_cols :: "nat list \<Rightarrow> ('r, 'c, 'a) dataframe \<Rightarrow> ('r, 'c, 'a) dataframe" where
  "take_cols ps df =
     df\<lparr>columns := map (\<lambda>j. columns df ! j) ps,
        cells := map (\<lambda>row. map (\<lambda>j. row ! j) ps) (cells df)\<rparr>"

definition iloc_rows ::
  "nat list \<Rightarrow> ('r, 'c, 'a) dataframe \<Rightarrow> error + ('r, 'c, 'a) dataframe" where
  "iloc_rows ps df =
     (if list_all (\<lambda>i. i < len_df df) ps then Inr (take_rows ps df) else Inl IndexError)"

definition iloc_cols ::
  "nat list \<Rightarrow> ('r, 'c, 'a) dataframe \<Rightarrow> error + ('r, 'c, 'a) dataframe" where
  "iloc_cols ps df =
     (if list_all (\<lambda>j. j < length (columns df)) ps then Inr (take_cols ps df)
      else Inl IndexError)"

text \<open>
  \<open>df.iloc[:, mask]\<close> with a list of booleans keeps the columns whose entry is True, in
  their order; a mask of the wrong length is an IndexError. An empty list is an empty
  list of positions.
\<close>

definition iloc_cols_mask ::
  "bool list \<Rightarrow> ('r, 'c, 'a) dataframe \<Rightarrow> error + ('r, 'c, 'a) dataframe" where
  "iloc_cols_mask keep df =
     (if keep = [] then Inr (take_cols [] df)
      else if length keep = length (columns df)
      then Inr (take_cols (filter (\<lambda>j. keep ! j) [0..<length keep]) df)
      else Inl IndexError)"

text \<open>
  Modelled from the spec: \<open>np.argsort\<close> is NumPy's, not the repository's. It returns the
  positions of its argument in ascending order of the values. NumPy's default sorting
  kind leaves the order of equal values open; the specification fixes it as a stable
  sort (equal values keep their original relative order), and so does this definition.
\<close>

definition argsort :: "int list \<Rightarrow> nat list" where
  "argsort xs = sort_key (\<lambda>i. xs ! i) [0..<length xs]"

text \<open>\<open>np.flipud\<close> on a one-dimensional array reverses it; \<open>np.sort\<close> sorts ascending.\<close>

definition flipud :: "'a list \<Rightarrow> 'a list" where
  "flipud xs = rev xs"

definition np_sort :: "nat list \<Rightarrow> nat list" where
  "np_sort xs = sort xs"

text \<open>
  Python slices \<open>xs[i:]\<close> and \<open>xs[:i]\<close>: a negative bound counts from the end, and a
  bound outside the list is clipped to it.
\<close>

definition slice_from :: "int \<Rightarrow> 'a list \<Rightarrow> 'a list" where
  "slice_from i xs =
     (if i < 0 then drop (length xs - nat (- i)) xs else drop (nat i) xs)"

definition slice_to :: "int \<Rightarrow> 'a list \<Rightarrow> 'a list" where
  "slice_to i xs =
     (if i < 0 then take (length xs - nat (- i)) xs else take (nat i) xs)"

text \<open>
  \<open>counts / len(df)\<close> is NumPy's true division of an integer array by an integer. The
  quotient is a float; the model keeps its exact rational value and leaves the rounding
  of binary floating point out. Division by zero does not raise in NumPy: it gives
  nan for 0/0 and a signed infinity otherwise (and reports it with a RuntimeWarning,
  which the model of \<open>nullity_filter\<close> does not record). Every comparison with nan
  is False. The threshold \<open>p\<close> is a finite number.
\<close>

datatype npfloat = Fin rat | PosInf | NegInf | NaN

definition truediv :: "int \<Rightarrow> nat \<Rightarrow> npfloat" where
  "truediv c n =
     (if n \<noteq> 0 then Fin (of_int c / of_nat n)
      else if 0 < c then PosInf else if c < 0 then NegInf else NaN)"

fun float_ge :: "npfloat \<Rightarrow> rat \<Rightarrow> bool" where
  "float_ge (Fin x) p = (p \<le> x)"
| "float_ge PosInf p = True"
| "float_ge NegInf p = False"
| "float_ge NaN p = False"

fun float_le :: "npfloat \<Rightarrow> rat \<Rightarrow> bool" where
  "float_le (Fin x) p = (x \<le> p)"
| "float_le PosInf p = False"
| "float_le NegInf p = True"
| "float_le NaN p = False"

section \<open>\<open>nullity_sort\<close>\<close>

text \<open>
  The result is the list of warnings the call emits, then the exception raised or the
  table returned. After the two checks of \<open>sort\<close> its value is ''ascending'' or
  ''descending'', so the second \<open>elif\<close> of each axis branch is the \<open>else\<close> here.
\<close>

definition nullity_sort ::
  "('r, 'c, 'a) dataframe \<Rightarrow> string option \<Rightarrow> string
     \<Rightarrow> warning list \<times> (error + ('r, 'c, 'a) dataframe)" where
  "nullity_sort df sort' axis =
     (if sort' = None then ([], Inr df)
      else if sort' \<noteq> Some ''ascending'' \<and> sort' \<noteq> Some ''descending'' then
        ([], Inl (ValueError
          ''The \"sort\" parameter must be set to \"ascending\" or \"descending\".''))
      else
        let (ws, axis') =
              (if axis = ''rows'' then
                 ([DeprecationWarning
                     ''Using axis=\"rows\" is deprecated and will be removed in a future release. Use axis=\"index\" instead.''],
                  ''index'')
               else ([], axis))
        in
          if axis' \<noteq> ''index'' \<and> axis' \<noteq> ''columns'' then
            (ws, Inl (ValueError ''The \"axis\" parameter must be set to \"index\" or \"columns\".''))
          else if axis' = ''columns'' then
            (if sort' = Some ''ascending'' then
               (ws, iloc_rows (argsort (count_columns df)) df)
             else
               (ws, iloc_rows (flipud (argsort (count_columns df))) df))
          else
            (if sort' = Some ''ascending'' then
               (ws, iloc_cols (argsort (count_index df)) df)
             else
               (ws, iloc_cols (flipud (argsort (count_index df))) df)))"

section \<open>\<open>nullity_filter\<close>\<close>

text \<open>
  The four reassignments of \<open>df\<close>, one definition each: the ratio masks of the
  ''top'' and ''bottom'' branches (\<open>c >= p\<close> and \<open>c <= p\<close> over
  \<open>df.count(axis="index").values / len(df)\<close>) and their count selections (the slices
  \<open>[-n:]\<close> and \<open>[:n]\<close> of the argsort, put back in column order by \<open>np.sort\<close>).
  \<open>nullity_filter\<close> chains them as the \<open>if p:\<close> and \<open>if n:\<close> statements do;
  \<open>n\<close> is a Python int.
\<close>

definition filter_top_p ::
  "('r, 'c, 'a) dataframe \<Rightarrow> rat \<Rightarrow> error + ('r, 'c, 'a) dataframe" where
  "filter_top_p df p =
     iloc_cols_mask
       (map (\<lambda>c. float_ge c p) (map (\<lambda>c. truediv c (len_df df)) (count_index df))) df"

definition filter_top_n ::
  "('r, 'c, 'a) dataframe \<Rightarrow> int \<Rightarrow> error + ('r, 'c, 'a) dataframe" where
  "filter_top_n df n =
     iloc_cols (np_sort (slice_from (- n) (argsort (count_index df)))) df"

definition filter_bottom_p ::
  "('r, 'c, 'a) dataframe \<Rightarrow> rat \<Rightarrow> error + ('r, 'c, 'a) dataframe" where
  "filter_bottom_p df p =
     iloc_cols_mask
       (map (\<lambda>c. float_le c p) (map (\<lambda>c. truediv c (len_df df)) (count_index df))) df"

definition filter_bottom_n ::
  "('r, 'c, 'a) dataframe \<Rightarrow> int \<Rightarrow> error + ('r, 'c, 'a) dataframe" where
  "filter_bottom_n df n =
     iloc_cols (np_sort (slice_to n (argsort (count_index df)))) df"

definition nullity_filter ::
  "('r, 'c, 'a) dataframe \<Rightarrow> string option \<Rightarrow> rat \<Rightarrow> int
     \<Rightarrow> error + ('r, 'c, 'a) dataframe" where
  "nullity_filter df filter' p n =
     (if filter' = Some ''top'' then
        (case (if p \<noteq> 0 then filter_top_p df p else Inr df) of
           Inl e \<Rightarrow> Inl e
         | Inr df1 \<Rightarrow> if n \<noteq> 0 then filter_top_n df1 n else Inr df1)
      else if filter' = Some ''bottom'' then
        (case (if p \<noteq> 0 then filter_bottom_p df p else Inr df) of
           Inl e \<Rightarrow> Inl e
         | Inr df1 \<Rightarrow> if n \<noteq> 0 then filter_bottom_n df1 n else Inr df1)
      else Inr df)"

section \<open>Example tables\<close>

text \<open>
  The scenario table of the specification: four rows and the columns A, B, C, D with
  4, 2, 1 and 4 cells present.
\<close>

definition scenario :: "(nat, string, int) dataframe" where
  "scenario =
     \<lparr>index = [0, 1, 2, 3],
      columns = [''A'', ''B'', ''C'', ''D''],
      cells = [[Some 10, Some 20, Some 30, Some 40],
               [Some 11, Some 21, None, Some 41],
               [Some 12, None, None, Some 42],
               [Some 13, None, None, Some 43]]\<rparr>"

text \<open>
  Two rows with 2 and 1 cells present, two columns with 1 and 2 cells present: no two
  rows and no two columns have the same count.
\<close>

definition small :: "(nat, string, int) dataframe" where
  "small =
     \<lparr>index = [0, 1],
      columns = [''A'', ''B''],
      cells = [[Some 1, Some 2],
               [None, Some 3]]\<rparr>"

section \<open>Facts about the library operations\<close>

lemma wf_df_scenario: "wf_df scenario"
  by (simp add: wf_df_def scenario_def)

lemma wf_df_small: "wf_df small"
  by (simp add: wf_df_def small_def)

lemma length_count_columns: "length (count_columns df) = length (cells df)"
  by (simp add: count_columns_def)

lemma length_count_index: "length (count_index df) = length (columns df)"
  by (simp add: count_index_def)

lemma count_columns_nth:
  "i < length (cells df) \<Longrightarrow> count_columns df ! i = notna (cells df ! i)"
  by (simp add: count_columns_def)

lemma count_index_nth:
  "j < length (columns df) \<Longrightarrow> count_index df ! j = notna (column_cells df j)"
  by (simp add: count_index_def)

subsection \<open>\<open>argsort\<close> is a stable sorting permutation\<close>

lemma mset_argsort: "mset (argsort xs) = mset [0..<length xs]"
  by (simp add: argsort_def)

lemma set_argsort: "set (argsort xs) = {0..<length xs}"
  by (simp add: argsort_def)



lemma sorted_argsort: "sorted (map (\<lambda>i. xs ! i) (argsort xs))"
  by (simp add: argsort_def)


subsection \<open>Selecting by a permutation of the positions\<close>

lemma perm_upt_in_range:
  assumes "mset P = mset [0..<n]"
  shows "set P = {0..<n}" and "length P = n" and "distinct P"
proof -
  show "set P = {0..<n}" using assms by (metis mset_eq_setD set_upt)
  show "length P = n" using assms by (metis mset_eq_length length_upt diff_zero)
  show "distinct P" using assms by (metis mset_eq_imp_distinct_iff distinct_upt)
qed

lemma mset_map_nth_perm:
  assumes "mset P = mset [0..<length xs]"
  shows "mset (map (\<lambda>i. xs ! i) P) = mset xs"
proof -
  have "mset (map (\<lambda>i. xs ! i) P) = image_mset (\<lambda>i. xs ! i) (mset P)" by simp
  also have "\<dots> = mset (map (\<lambda>i. xs ! i) [0..<length xs])" using assms by simp
  also have "\<dots> = mset xs" by (simp add: map_nth)
  finally show ?thesis .
qed

lemma mset_concat_cong:
  assumes "mset xss = mset yss"
  shows "mset (concat xss) = mset (concat yss)"
proof -
  have "mset (concat zs) = sum_mset (image_mset mset (mset zs))" for zs :: "'a list list"
    by (induction zs) simp_all
  then show ?thesis using assms by simp
qed

lemma mset_concat_map_perm:
  assumes "list_all (\<lambda>row. length row = n) cs" and "mset P = mset [0..<n]"
  shows "mset (concat (map (\<lambda>row. map (\<lambda>j. row ! j) P) cs)) = mset (concat cs)"
  using assms(1)
proof (induction cs)
  case Nil
  then show ?case by simp
next
  case (Cons row cs)
  then have "mset (map (\<lambda>j. row ! j) P) = mset row"
    using assms(2) mset_map_nth_perm[of P row] by simp
  with Cons show ?case by simp
qed

lemma wf_take_rows:
  assumes "wf_df df" and "set P \<subseteq> {0..<length (index df)}"
  shows "wf_df (take_rows P df)"
  using assms by (auto simp add: wf_df_def take_rows_def list_all_iff)

lemma wf_take_cols:
  assumes "wf_df df"
  shows "wf_df (take_cols P df)"
  using assms by (auto simp add: wf_df_def take_cols_def list_all_iff)

subsection \<open>The four sorting branches never fail on a table\<close>

lemma iloc_rows_argsort:
  assumes "wf_df df"
  shows "iloc_rows (argsort (count_columns df)) df
           = Inr (take_rows (argsort (count_columns df)) df)"
    and "iloc_rows (rev (argsort (count_columns df))) df
           = Inr (take_rows (rev (argsort (count_columns df))) df)"
  using assms
  by (simp_all add: iloc_rows_def len_df_def wf_df_def list_all_iff set_argsort
      length_count_columns)

lemma iloc_cols_argsort:
  shows "iloc_cols (argsort (count_index df)) df
           = Inr (take_cols (argsort (count_index df)) df)"
    and "iloc_cols (rev (argsort (count_index df))) df
           = Inr (take_cols (rev (argsort (count_index df))) df)"
  by (simp_all add: iloc_cols_def list_all_iff set_argsort length_count_index)

lemma sort_columns_eq:
  assumes "wf_df df"
  shows "nullity_sort df (Some ''ascending'') ''columns''
           = ([], Inr (take_rows (argsort (count_columns df)) df))"
    and "nullity_sort df (Some ''descending'') ''columns''
           = ([], Inr (take_rows (rev (argsort (count_columns df))) df))"
  using iloc_rows_argsort[OF assms]
  by (simp_all add: nullity_sort_def flipud_def)

lemma sort_index_eq:
  shows "nullity_sort df (Some ''ascending'') ''index''
           = ([], Inr (take_cols (argsort (count_index df)) df))"
    and "nullity_sort df (Some ''descending'') ''index''
           = ([], Inr (take_cols (rev (argsort (count_index df))) df))"
  using iloc_cols_argsort[of df]
  by (simp_all add: nullity_sort_def flipud_def)

lemma sorted_row_counts:
  assumes "wf_df df"
  shows "sorted (map (\<lambda>i. notna (cells df ! i)) (argsort (count_columns df)))"
proof -
  have eq: "map (\<lambda>i. notna (cells df ! i)) (argsort (count_columns df))
          = map (\<lambda>i. count_columns df ! i) (argsort (count_columns df))"
    by (rule map_cong) (auto simp add: set_argsort length_count_columns count_columns_nth)
  show ?thesis unfolding eq by (rule sorted_argsort)
qed

lemma sorted_column_counts:
  "sorted (map (\<lambda>j. notna (column_cells df j)) (argsort (count_index df)))"
proof -
  have eq: "map (\<lambda>j. notna (column_cells df j)) (argsort (count_index df))
          = map (\<lambda>j. count_index df ! j) (argsort (count_index df))"
    by (rule map_cong) (auto simp add: set_argsort length_count_index count_index_nth)
  show ?thesis unfolding eq by (rule sorted_argsort)
qed

section \<open>Which axis is sorted\<close>

text \<open>
  C1, as the code has it. On every table and for both directions, \<open>nullity_sort\<close>
  with axis ''columns'' takes one count per row (pandas counts along the columns axis)
  and permutes the rows by those counts, ascending or the reverse of it, leaving the
  columns as they are; with axis ''index'' it takes one count per column and permutes
  the columns, leaving the rows as they are.
\<close>

theorem sort_axis_semantics:
  assumes "wf_df df"
  shows "\<exists>P Q.
     mset P = mset [0..<length (index df)] \<and>
     sorted (map (\<lambda>i. notna (cells df ! i)) P) \<and>
     mset Q = mset [0..<length (columns df)] \<and>
     sorted (map (\<lambda>j. notna (column_cells df j)) Q) \<and>
     nullity_sort df (Some ''ascending'') ''columns''
       = ([], Inr (df\<lparr>index := map (\<lambda>i. index df ! i) P,
                       cells := map (\<lambda>i. cells df ! i) P\<rparr>)) \<and>
     nullity_sort df (Some ''descending'') ''columns''
       = ([], Inr (df\<lparr>index := map (\<lambda>i. index df ! i) (rev P),
                       cells := map (\<lambda>i. cells df ! i) (rev P)\<rparr>)) \<and>
     nullity_sort df (Some ''ascending'') ''index''
       = ([], Inr (df\<lparr>columns := map (\<lambda>j. columns df ! j) Q,
                       cells := map (\<lambda>row. map (\<lambda>j. row ! j) Q) (cells df)\<rparr>)) \<and>
     nullity_sort df (Some ''descending'') ''index''
       = ([], Inr (df\<lparr>columns := map (\<lambda>j. columns df ! j) (rev Q),
                       cells := map (\<lambda>row. map (\<lambda>j. row ! j) (rev Q)) (cells df)\<rparr>))"
proof -
  let ?P = "argsort (count_columns df)" and ?Q = "argsort (count_index df)"
  have n: "length (count_columns df) = length (index df)"
    using assms by (simp add: length_count_columns wf_df_def)
  have 1: "mset ?P = mset [0..<length (index df)]"
    by (simp add: mset_argsort n)
  have 2: "mset ?Q = mset [0..<length (columns df)]"
    by (simp add: mset_argsort length_count_index)
  show ?thesis
    apply (rule exI[of _ ?P], rule exI[of _ ?Q])
    using 1 2 sorted_row_counts[OF assms] sorted_column_counts[of df]
      sort_columns_eq[OF assms] sort_index_eq[of df]
    by (simp add: take_rows_def take_cols_def)
qed

theorem sort_axis_semantics_witness:
  "wf_df small \<and>
   (\<exists>P Q.
     mset P = mset [0..<length (index small)] \<and>
     sorted (map (\<lambda>i. notna (cells small ! i)) P) \<and>
     mset Q = mset [0..<length (columns small)] \<and>
     sorted (map (\<lambda>j. notna (column_cells small j)) Q) \<and>
     nullity_sort small (Some ''ascending'') ''columns''
       = ([], Inr (small\<lparr>index := map (\<lambda>i. index small ! i) P,
                       cells := map (\<lambda>i. cells small ! i) P\<rparr>)) \<and>
     nullity_sort small (Some ''descending'') ''columns''
       = ([], Inr (small\<lparr>index := map (\<lambda>i. index small ! i) (rev P),
                       cells := map (\<lambda>i. cells small ! i) (rev P)\<rparr>)) \<and>
     nullity_sort small (Some ''ascending'') ''index''
       = ([], Inr (small\<lparr>columns := map (\<lambda>j. columns small ! j) Q,
                       cells := map (\<lambda>row. map (\<lambda>j. row ! j) Q) (cells small)\<rparr>)) \<and>
     nullity_sort small (Some ''descending'') ''index''
       = ([], Inr (small\<lparr>columns := map (\<lambda>j. columns small ! j) (rev Q),
                       cells := map (\<lambda>row. map (\<lambda>j. row ! j) (rev Q)) (cells small)\<rparr>)))"
  using wf_df_small sort_axis_semantics [OF wf_df_small] by blast

text \<open>
  C1 as the specification words it fails: on the table \<open>small\<close> the column counts
  are already ascending, so sorting the columns would change nothing, yet the call with
  axis ''columns'' swaps the two rows (by the row counts 2 and 1) and keeps the column
  order; the call with axis ''index'' reorders the columns and keeps the row order.
\<close>

theorem sort_axis_counterexample:
  "nullity_sort small (Some ''ascending'') ''columns''
     = ([], Inr \<lparr>index = [1, 0], columns = [''A'', ''B''],
                  cells = [[None, Some 3], [Some 1, Some 2]]\<rparr>)
   \<and> index small = [0, 1] \<and> columns small = [''A'', ''B'']
   \<and> count_index small = [1, 2]
   \<and> nullity_sort small (Some ''descending'') ''index''
     = ([], Inr \<lparr>index = [0, 1], columns = [''B'', ''A''],
                  cells = [[Some 2, Some 1], [Some 3, None]]\<rparr>)
   \<and> count_columns small = [2, 1]"
  by (simp add: nullity_sort_def small_def iloc_rows_def iloc_cols_def take_rows_def
      take_cols_def count_columns_def count_index_def column_cells_def notna_def
      argsort_def flipud_def len_df_def Option.is_none_def)

section \<open>Errors and warnings of \<open>nullity_sort\<close>\<close>

text \<open>
  C4, as the code has it. \<open>nullity_sort\<close> raises exactly when a direction is
  supplied and either the direction is neither ''ascending'' nor ''descending'' or the
  axis, with ''rows'' read as ''index'', is neither ''index'' nor ''columns''; whatever
  it raises is a ValueError.
\<close>

theorem sort_raises_iff:
  assumes "wf_df df"
  shows "((\<exists>e. snd (nullity_sort df sort' axis) = Inl e) \<longleftrightarrow>
            sort' \<noteq> None \<and>
            ((sort' \<noteq> Some ''ascending'' \<and> sort' \<noteq> Some ''descending'') \<or>
             (if axis = ''rows'' then ''index'' else axis) \<notin> {''index'', ''columns''}))
         \<and> (\<forall>e. snd (nullity_sort df sort' axis) = Inl e \<longrightarrow> (\<exists>msg. e = ValueError msg))"
  using iloc_rows_argsort[OF assms] iloc_cols_argsort[of df]
  by (auto simp add: nullity_sort_def flipud_def)

theorem sort_raises_iff_witness:
  "wf_df small \<and>
   (\<exists>e. snd (nullity_sort small (Some ''ascending'') ''diagonal'') = Inl e) \<and>
   (\<exists>msg. snd (nullity_sort small (Some ''ascending'') ''diagonal'') = Inl (ValueError msg)) \<and>
   (\<exists>df'. snd (nullity_sort small (Some ''ascending'') ''rows'') = Inr df')"
  using wf_df_small
    sort_raises_iff [OF wf_df_small, of "Some ''ascending''" "''diagonal''"]
    sort_raises_iff [OF wf_df_small, of "Some ''ascending''" "''rows''"]
  by (auto intro: sum.exhaust)

text \<open>
  C4 as the specification words it fails: with no direction the table is returned, also
  for an axis that is none of ''rows'', ''index'' and ''columns''.
\<close>

theorem sort_raises_counterexample:
  "snd (nullity_sort small None ''diagonal'') = Inr small
   \<and> (if ''diagonal'' = ''rows'' then ''index'' else ''diagonal'') \<notin> {''index'', ''columns''}"
  by (simp add: nullity_sort_def)

text \<open>
  C7. A call with a valid direction and axis ''rows'' emits exactly one warning, a
  DeprecationWarning, goes on to return a table, and that table is the one the call
  with axis ''index'' returns, which emits no warning.
\<close>

theorem sort_rows_alias:
  assumes "d = ''ascending'' \<or> d = ''descending''"
  shows "\<exists>msg df'.
           nullity_sort df (Some d) ''rows'' = ([DeprecationWarning msg], Inr df') \<and>
           nullity_sort df (Some d) ''index'' = ([], Inr df')"
  using assms iloc_cols_argsort[of df]
  by (auto simp add: nullity_sort_def flipud_def)

theorem sort_rows_alias_witness:
  "(''descending'' = ''ascending'' \<or> ''descending'' = ''descending'') \<and>
   (\<exists>msg df'.
      nullity_sort scenario (Some ''descending'') ''rows'' = ([DeprecationWarning msg], Inr df') \<and>
      nullity_sort scenario (Some ''descending'') ''index'' = ([], Inr df'))"
  using sort_rows_alias [of "''descending''" scenario] by simp

text \<open>
  C10. With no direction the table is returned before the axis is looked at: no warning
  for axis ''rows'', and no error and no warning for any axis at all.
\<close>

theorem sort_none_returns_first:
  "nullity_sort df None ''rows'' = ([], Inr df) \<and> nullity_sort df None axis = ([], Inr df)"
  by (simp add: nullity_sort_def)

section \<open>Identity laws\<close>

text \<open>
  C5. \<open>nullity_sort\<close> with no direction returns the table unchanged for every axis,
  and \<open>nullity_filter\<close> with no mode returns the table unchanged for every p and n.
\<close>

theorem identity_when_unspecified:
  "nullity_sort df None axis = ([], Inr df) \<and> nullity_filter df None p n = Inr df"
  by (simp add: nullity_sort_def nullity_filter_def)

text \<open>
  C9. \<open>nullity_filter\<close> with a mode that is neither ''top'' nor ''bottom'' returns the
  table unchanged and raises nothing, for every p and n.
\<close>

theorem filter_other_mode_unchanged:
  "filter' \<noteq> Some ''top'' \<Longrightarrow> filter' \<noteq> Some ''bottom'' \<Longrightarrow>
   nullity_filter df filter' p n = Inr df"
  by (simp add: nullity_filter_def)

theorem filter_other_mode_unchanged_witness:
  "Some ''middle'' \<noteq> Some ''top'' \<and> Some ''middle'' \<noteq> Some ''bottom''
   \<and> nullity_filter scenario (Some ''middle'') (1/2) 2 = Inr scenario"
  using filter_other_mode_unchanged [of "Some ''middle''" scenario "1/2" 2] by simp

section \<open>Sorting only reorders\<close>

lemma take_rows_perm:
  assumes "wf_df df" and "mset P = mset [0..<length (index df)]"
  shows "wf_df (take_rows P df)"
    and "length (index (take_rows P df)) = length (index df)"
    and "columns (take_rows P df) = columns df"
    and "mset (index (take_rows P df)) = mset (index df)"
    and "mset (cells (take_rows P df)) = mset (cells df)"
    and "mset (concat (cells (take_rows P df))) = mset (concat (cells df))"
proof -
  have n: "length (cells df) = length (index df)"
    using assms(1) by (simp add: wf_df_def)
  show "wf_df (take_rows P df)"
    using assms perm_upt_in_range(1)[OF assms(2)] by (simp add: wf_take_rows)
  show "length (index (take_rows P df)) = length (index df)"
    using perm_upt_in_range(2)[OF assms(2)] by (simp add: take_rows_def)
  show "columns (take_rows P df) = columns df"
    by (simp add: take_rows_def)
  show "mset (index (take_rows P df)) = mset (index df)"
    using mset_map_nth_perm[OF assms(2)] by (simp add: take_rows_def)
  show c: "mset (cells (take_rows P df)) = mset (cells df)"
    using mset_map_nth_perm[of P "cells df"] assms(2) n by (simp add: take_rows_def)
  show "mset (concat (cells (take_rows P df))) = mset (concat (cells df))"
    by (rule mset_concat_cong[OF c])
qed

lemma take_cols_perm:
  assumes "wf_df df" and "mset P = mset [0..<length (columns df)]"
  shows "wf_df (take_cols P df)"
    and "index (take_cols P df) = index df"
    and "length (columns (take_cols P df)) = length (columns df)"
    and "mset (columns (take_cols P df)) = mset (columns df)"
    and "mset (concat (cells (take_cols P df))) = mset (concat (cells df))"
proof -
  show "wf_df (take_cols P df)"
    using assms(1) by (rule wf_take_cols)
  show "index (take_cols P df) = index df"
    by (simp add: take_cols_def)
  show "length (columns (take_cols P df)) = length (columns df)"
    using perm_upt_in_range(2)[OF assms(2)] by (simp add: take_cols_def)
  show "mset (columns (take_cols P df)) = mset (columns df)"
    using mset_map_nth_perm[OF assms(2)] by (simp add: take_cols_def)
  have "list_all (\<lambda>row. length row = length (columns df)) (cells df)"
    using assms(1) by (simp add: wf_df_def)
  from mset_concat_map_perm[OF this assms(2)]
  show "mset (concat (cells (take_cols P df))) = mset (concat (cells df))"
    by (simp add: take_cols_def)
qed

lemma sort_rows_eq:
  shows "fst (nullity_sort df (Some ''ascending'') ''rows'') \<noteq> [] \<and>
         snd (nullity_sort df (Some ''ascending'') ''rows'')
           = Inr (take_cols (argsort (count_index df)) df)"
    and "fst (nullity_sort df (Some ''descending'') ''rows'') \<noteq> [] \<and>
         snd (nullity_sort df (Some ''descending'') ''rows'')
           = Inr (take_cols (rev (argsort (count_index df))) df)"
  using iloc_cols_argsort[of df]
  by (simp_all add: nullity_sort_def flipud_def)

text \<open>
  C8. For every table, both directions and every accepted axis, \<open>nullity_sort\<close>
  returns a table with as many rows and as many columns as the input and the same
  multiset of cells (and of row and column labels): it is the input with its rows, or
  its columns, selected by a permutation of the positions.
\<close>

theorem sort_preserves_shape_and_cells:
  assumes "wf_df df"
    and "d = ''ascending'' \<or> d = ''descending''"
    and "axis = ''columns'' \<or> axis = ''index'' \<or> axis = ''rows''"
  shows "\<exists>df' P.
     snd (nullity_sort df (Some d) axis) = Inr df' \<and>
     wf_df df' \<and>
     length (index df') = length (index df) \<and>
     length (columns df') = length (columns df) \<and>
     mset (concat (cells df')) = mset (concat (cells df)) \<and>
     mset (index df') = mset (index df) \<and>
     mset (columns df') = mset (columns df) \<and>
     (if axis = ''columns''
      then mset P = mset [0..<length (index df)] \<and> df' = take_rows P df
      else mset P = mset [0..<length (columns df)] \<and> df' = take_cols P df)"
proof -
  let ?P = "argsort (count_columns df)" and ?Q = "argsort (count_index df)"
  have n: "length (count_columns df) = length (index df)"
    using assms(1) by (simp add: length_count_columns wf_df_def)
  have P: "mset ?P = mset [0..<length (index df)]" "mset (rev ?P) = mset [0..<length (index df)]"
    by (simp_all add: mset_argsort n)
  have Q: "mset ?Q = mset [0..<length (columns df)]" "mset (rev ?Q) = mset [0..<length (columns df)]"
    by (simp_all add: mset_argsort length_count_index)
  have rows: ?thesis
    if "snd (nullity_sort df (Some d) axis) = Inr (take_rows R df)"
      and "mset R = mset [0..<length (index df)]" and "axis = ''columns''" for R
  proof (intro exI[of _ "take_rows R df"] exI[of _ R] conjI)
    show "snd (nullity_sort df (Some d) axis) = Inr (take_rows R df)" by (rule that(1))
    show "length (columns (take_rows R df)) = length (columns df)"
      by (simp add: take_rows_perm(3)[OF assms(1) that(2)])
    show "if axis = ''columns''
      then mset R = mset [0..<length (index df)] \<and> take_rows R df = take_rows R df
      else mset R = mset [0..<length (columns df)] \<and> take_rows R df = take_cols R df"
      using that(2,3) by simp
    show "mset (columns (take_rows R df)) = mset (columns df)"
      by (simp add: take_rows_perm(3)[OF assms(1) that(2)])
  qed (rule take_rows_perm[OF assms(1) that(2)])+
  have cols: ?thesis
    if "snd (nullity_sort df (Some d) axis) = Inr (take_cols R df)"
      and "mset R = mset [0..<length (columns df)]" and "axis \<noteq> ''columns''" for R
  proof (intro exI[of _ "take_cols R df"] exI[of _ R] conjI)
    show "snd (nullity_sort df (Some d) axis) = Inr (take_cols R df)" by (rule that(1))
    show "length (index (take_cols R df)) = length (index df)"
      by (simp add: take_cols_perm(2)[OF assms(1) that(2)])
    show "if axis = ''columns''
      then mset R = mset [0..<length (index df)] \<and> take_cols R df = take_rows R df
      else mset R = mset [0..<length (columns df)] \<and> take_cols R df = take_cols R df"
      using that(2,3) by simp
    show "mset (index (take_cols R df)) = mset (index df)"
      by (simp add: take_cols_perm(2)[OF assms(1) that(2)])
  qed (rule take_cols_perm[OF assms(1) that(2)])+
  from assms(3) show ?thesis
  proof (elim disjE)
    assume ax: "axis = ''columns''"
    from assms(2) show ?thesis
    proof
      assume "d = ''ascending''"
      with ax show ?thesis
        by (intro rows[of ?P]) (simp_all add: sort_columns_eq(1)[OF assms(1)] P)
    next
      assume "d = ''descending''"
      with ax show ?thesis
        by (intro rows[of "rev ?P"]) (simp_all add: sort_columns_eq(2)[OF assms(1)] P)
    qed
  next
    assume ax: "axis = ''index''"
    from assms(2) show ?thesis
    proof
      assume "d = ''ascending''"
      with ax show ?thesis
        by (intro cols[of ?Q]) (simp_all add: sort_index_eq(1)[of df] Q)
    next
      assume "d = ''descending''"
      with ax show ?thesis
        by (intro cols[of "rev ?Q"]) (simp_all add: sort_index_eq(2)[of df] Q)
    qed
  next
    assume ax: "axis = ''rows''"
    from assms(2) show ?thesis
    proof
      assume "d = ''ascending''"
      with ax show ?thesis
        by (intro cols[of ?Q]) (simp_all add: sort_rows_eq(1)[of df] Q)
    next
      assume "d = ''descending''"
      with ax show ?thesis
        by (intro cols[of "rev ?Q"]) (simp_all add: sort_rows_eq(2)[of df] Q)
    qed
  qed
qed

theorem sort_preserves_shape_and_cells_witness:
  "wf_df scenario \<and>
   (''descending'' = ''ascending'' \<or> ''descending'' = ''descending'') \<and>
   (''columns'' = ''columns'' \<or> ''columns'' = ''index'' \<or> ''columns'' = ''rows'') \<and>
   (\<exists>df' P.
     snd (nullity_sort scenario (Some ''descending'') ''columns'') = Inr df' \<and>
     wf_df df' \<and>
     length (index df') = length (index scenario) \<and>
     length (columns df') = length (columns scenario) \<and>
     mset (concat (cells df')) = mset (concat (cells scenario)) \<and>
     mset (index df') = mset (index scenario) \<and>
     mset (columns df') = mset (columns scenario) \<and>
     mset P = mset [0..<length (index scenario)] \<and> df' = take_rows P scenario)"
  using wf_df_scenario
    sort_preserves_shape_and_cells [OF wf_df_scenario, of "''descending''" "''columns''"]
  by simp

section \<open>Descending is ascending reversed\<close>

subsection \<open>\<open>argsort\<close> of lists without equal values\<close>














subsection \<open>Sorting a sorted table\<close>










section \<open>Filtering columns\<close>

subsection \<open>The ratio step and the count step\<close>











subsection \<open>Top and bottom filters\<close>







end
